theory Spec2Isabelle
  imports Main
begin

section \<open>The blog application of \<^verbatim>\<open>main.py\<close>\<close>

text \<open>
  The application is a set of Flask view functions over three SQLAlchemy tables and a
  Flask-Login session. Each view becomes a function from the application state (the
  committed rows, the session, the flashed notices) and the request to a result and the
  state after the request. An exception that escapes a view (\<open>abort\<close>, an
  \<open>AttributeError\<close>, an error of the ORM) is the left summand of the result, and the
  state it returns is the state before the request: nothing was committed.

  What the libraries do is written where the view calls them:
  \<^item> \<open>form.validate_on_submit()\<close> belongs to \<^verbatim>\<open>forms.py\<close>, which is not among the sources.
    A view takes \<open>Some data\<close> when the request is a submission that validated and
    \<open>None\<close> otherwise (a GET, or a POST that did not validate);
  \<^item> \<open>generate_password_hash\<close> and \<open>check_password_hash\<close> of werkzeug are parameters
    (the record \<open>security\<close>); the random salt is an argument of \<open>register\<close>;
  \<^item> \<open>datetime.now()\<close> is an argument of \<open>make_post\<close>;
  \<^item> the store assigns an integer primary key to a new row: one more than the largest
    key of the table, 1 for an empty table.
\<close>

subsection \<open>Tables\<close>

text \<open>
  The columns of \<open>User\<close>, \<open>BlogPost\<close> and \<open>Comment\<close>. Field names carry the table as a
  prefix (\<open>User.id\<close> is \<open>user_id\<close>, \<open>BlogPost.author_id\<close> is \<open>post_author_id\<close>). The foreign
  keys are nullable columns, hence \<open>int option\<close>.
\<close>

record user =
  user_id :: int
  user_email :: string
  user_password :: string
  user_name :: string

record blog_post =
  post_id :: int
  post_title :: string
  post_subtitle :: string
  post_date :: string
  post_body :: string
  post_img_url :: string
  post_author_id :: "int option"

record comment =
  comment_id :: int
  comment_author_id :: "int option"
  comment_post_id :: "int option"
  comment_text :: string

record app_state =
  users :: "user list"
  blog_posts :: "blog_post list"
  comments :: "comment list"
  session_user_id :: "int option"
  flashed :: "string list"

definition next_id :: "int list \<Rightarrow> int" where
  "next_id ids = foldr max ids 0 + 1"

subsection \<open>Requests, responses, exceptions\<close>

record register_form =
  rf_name :: string
  rf_email :: string
  rf_password :: string

record login_form =
  lf_email :: string
  lf_password :: string

record comment_form =
  cf_comment :: string

text \<open>
  \<open>edit_post\<close> reads \<open>edit_form.author.data\<close> and assigns it to the relationship
  \<open>post.author\<close>. The form class is not among the sources, so the three things the
  expression can do are kept apart: the form has no field \<open>author\<close> (the attribute access
  raises), the field holds text (assigning text to a relationship raises), or the field
  holds a user object or \<open>None\<close>.
\<close>

datatype author_data = No_author_field | Author_text string | Author_object "user option"

record create_post_form =
  form_title :: string
  form_subtitle :: string
  form_img_url :: string
  form_body :: string
  form_author :: author_data

datatype principal = Anonymous | Authenticated user

datatype endpoint = Login | Get_all_posts | Show_post int

datatype response =
    Redirect endpoint
  | Render_index "blog_post list" bool
  | Render_register bool
  | Render_login bool
  | Render_post "blog_post option" bool principal int
  | Render_make_post "blog_post option" bool bool

datatype error =
    HTTPException nat
  | AttributeError
  | UnmappedInstanceError
  | IntegrityError

type_synonym result = "(error + response) \<times> app_state"

record security =
  generate_password_hash :: "string \<Rightarrow> string \<Rightarrow> string"
  check_password_hash :: "string \<Rightarrow> string \<Rightarrow> bool"

subsection \<open>Queries and the session\<close>

definition user_query_get :: "app_state \<Rightarrow> int \<Rightarrow> user option" where
  "user_query_get s i = find (\<lambda>u. user_id u = i) (users s)"

definition user_filter_by_email_first :: "app_state \<Rightarrow> string \<Rightarrow> user option" where
  "user_filter_by_email_first s e = find (\<lambda>u. user_email u = e) (users s)"

definition blogpost_query_get :: "app_state \<Rightarrow> int \<Rightarrow> blog_post option" where
  "blogpost_query_get s i = find (\<lambda>p. post_id p = i) (blog_posts s)"

definition blogpost_query_all :: "app_state \<Rightarrow> blog_post list" where
  "blogpost_query_all s = blog_posts s"

definition load_user :: "app_state \<Rightarrow> int \<Rightarrow> user option" where
  "load_user s uid = user_query_get s uid"

text \<open>
  Flask-Login keeps the id of the logged-in user in the session and resolves it with
  \<open>load_user\<close> on each request; without an id, or when \<open>load_user\<close> finds no row, the
  current user is the anonymous user.
\<close>

definition current_user :: "app_state \<Rightarrow> principal" where
  "current_user s =
     (case session_user_id s of
        None \<Rightarrow> Anonymous
      | Some uid \<Rightarrow> (case load_user s uid of None \<Rightarrow> Anonymous | Some u \<Rightarrow> Authenticated u))"

fun is_authenticated :: "principal \<Rightarrow> bool" where
  "is_authenticated Anonymous = False"
| "is_authenticated (Authenticated u) = True"

definition login_user :: "user \<Rightarrow> app_state \<Rightarrow> app_state" where
  "login_user u s = s\<lparr>session_user_id := Some (user_id u)\<rparr>"

definition logout_user :: "app_state \<Rightarrow> app_state" where
  "logout_user s = s\<lparr>session_user_id := None\<rparr>"

definition flash :: "string \<Rightarrow> app_state \<Rightarrow> app_state" where
  "flash msg s = s\<lparr>flashed := flashed s @ [msg]\<rparr>"

subsection \<open>The date of a post\<close>

datatype month =
  January | February | March | April | May | June | July | August | September | October
  | November | December

record datetime =
  dt_year :: nat
  dt_month :: month
  dt_day :: nat

fun month_name :: "month \<Rightarrow> string" where
  "month_name January = ''January''"
| "month_name February = ''February''"
| "month_name March = ''March''"
| "month_name April = ''April''"
| "month_name May = ''May''"
| "month_name June = ''June''"
| "month_name July = ''July''"
| "month_name August = ''August''"
| "month_name September = ''September''"
| "month_name October = ''October''"
| "month_name November = ''November''"
| "month_name December = ''December''"

definition digit :: "nat \<Rightarrow> char" where
  "digit n = ''0123456789'' ! (n mod 10)"

fun decimal :: "nat \<Rightarrow> string" where
  "decimal n = (if n < 10 then [digit n] else decimal (n div 10) @ [digit n])"

declare decimal.simps [simp del]

text \<open>\<open>strftime("%B %d, %Y")\<close>: the month's name, the day on two digits, the year.\<close>

definition strftime :: "datetime \<Rightarrow> string" where
  "strftime d =
     month_name (dt_month d) @ '' ''
       @ (if dt_day d < 10 then ''0'' @ decimal (dt_day d) else decimal (dt_day d))
       @ '', '' @ decimal (dt_year d)"

subsection \<open>The admin decorator\<close>

text \<open>
  \<open>admin_only\<close> reads \<open>current_user.id\<close>. The anonymous user of Flask-Login has
  \<open>is_authenticated\<close>, \<open>is_active\<close>, \<open>is_anonymous\<close> and \<open>get_id\<close>, and no attribute \<open>id\<close>:
  for it the comparison raises \<open>AttributeError\<close> before \<open>abort(403)\<close> is reached.
  The function a decorator is applied to is its parameter \<open>func\<close>: the undecorated body
  of \<open>make_post\<close> is \<open>make_post_func\<close>, and \<open>make_post\<close> is \<open>admin_only make_post_func\<close>;
  likewise for \<open>edit_post\<close> and \<open>delete_post\<close>.
\<close>

definition admin_only :: "(app_state \<Rightarrow> 'a \<Rightarrow> result) \<Rightarrow> app_state \<Rightarrow> 'a \<Rightarrow> result" where
  "admin_only func s args =
     (case current_user s of
        Anonymous \<Rightarrow> (Inl AttributeError, s)
      | Authenticated u \<Rightarrow>
          if user_id u \<noteq> 1 then (Inl (HTTPException 403), s) else func s args)"

subsection \<open>Views\<close>

definition get_all_posts :: "app_state \<Rightarrow> result" where
  "get_all_posts s =
     (let posts = blogpost_query_all s
      in (Inr (Render_index posts (is_authenticated (current_user s))), s))"

definition register :: "security \<Rightarrow> app_state \<Rightarrow> string \<Rightarrow> register_form option \<Rightarrow> result" where
  "register sec s salt form =
     (case form of
        Some f \<Rightarrow>
          (case user_filter_by_email_first s (rf_email f) of
             Some existing \<Rightarrow>
               (Inr (Redirect Login),
                flash ''This email has been registered. Login with the email'' s)
           | None \<Rightarrow>
               (let hash_func = generate_password_hash sec (rf_password f) salt;
                    register_user =
                      \<lparr>user_id = next_id (map user_id (users s)),
                       user_email = rf_email f,
                       user_password = hash_func,
                       user_name = rf_name f\<rparr>
                in (Inr (Redirect Get_all_posts), s\<lparr>users := users s @ [register_user]\<rparr>)))
      | None \<Rightarrow> (Inr (Render_register (is_authenticated (current_user s))), s))"

definition login :: "security \<Rightarrow> app_state \<Rightarrow> login_form option \<Rightarrow> result" where
  "login sec s form =
     (case form of
        Some f \<Rightarrow>
          (case user_filter_by_email_first s (lf_email f) of
             None \<Rightarrow>
               (Inr (Redirect Login), flash ''This email does not exist. Please try again'' s)
           | Some u \<Rightarrow>
               if check_password_hash sec (user_password u) (lf_password f)
               then (Inr (Redirect Get_all_posts), login_user u s)
               else (let s' = flash ''Password incorrect. Please try again'' s
                     in (Inr (Render_login (is_authenticated (current_user s'))), s')))
      | None \<Rightarrow> (Inr (Render_login (is_authenticated (current_user s))), s))"

text \<open>
  \<open>login_required\<close>: no login view is configured, so an anonymous request is answered
  with \<open>abort(401)\<close>.
\<close>

definition logout :: "app_state \<Rightarrow> result" where
  "logout s =
     (if \<not> is_authenticated (current_user s) then (Inl (HTTPException 401), s)
      else (Inr (Redirect Get_all_posts), logout_user s))"

text \<open>
  In \<open>show_post\<close> the statement \<open>redirect(url_for("login"))\<close> under the last \<open>if\<close> has no
  \<open>return\<close>: its value is bound to \<open>dropped\<close> and not used.
\<close>

definition show_post :: "app_state \<Rightarrow> int \<Rightarrow> comment_form option \<Rightarrow> result" where
  "show_post s index form =
     (let requested_post = blogpost_query_get s index
      in case form of
           Some f \<Rightarrow>
             (case current_user s of
                Anonymous \<Rightarrow>
                  (Inr (Redirect Login), flash ''You need to login or register to comment.'' s)
              | Authenticated u \<Rightarrow>
                  (let user_comment =
                         \<lparr>comment_id = next_id (map comment_id (comments s)),
                          comment_author_id = Some (user_id u),
                          comment_post_id = map_option post_id requested_post,
                          comment_text = cf_comment f\<rparr>
                   in (Inr (Redirect (Show_post index)),
                       s\<lparr>comments := comments s @ [user_comment]\<rparr>)))
         | None \<Rightarrow>
             (let dropped =
                    (if \<not> is_authenticated (current_user s) then [Redirect Login] else [])
              in (Inr (Render_post requested_post True (current_user s) index), s)))"

text \<open>
  \<open>make_post\<close>: the column \<open>title\<close> is unique, so the commit of a title that a row already
  has raises \<open>IntegrityError\<close>.
\<close>

definition make_post_func :: "app_state \<Rightarrow> datetime \<times> create_post_form option \<Rightarrow> result" where
  "make_post_func s args =
     (case snd args of
        Some f \<Rightarrow>
          (case current_user s of
             Anonymous \<Rightarrow> (Inl AttributeError, s)
           | Authenticated u \<Rightarrow>
               (let new_posts =
                      \<lparr>post_id = next_id (map post_id (blog_posts s)),
                       post_title = form_title f,
                       post_subtitle = form_subtitle f,
                       post_date = strftime (fst args),
                       post_body = form_body f,
                       post_img_url = form_img_url f,
                       post_author_id = Some (user_id u)\<rparr>
                in if form_title f \<in> set (map post_title (blog_posts s))
                   then (Inl IntegrityError, s)
                   else (Inr (Redirect Get_all_posts),
                         s\<lparr>blog_posts := blog_posts s @ [new_posts]\<rparr>)))
      | None \<Rightarrow> (Inr (Render_make_post None False True), s))"

definition make_post :: "app_state \<Rightarrow> datetime \<times> create_post_form option \<Rightarrow> result" where
  "make_post = admin_only make_post_func"

text \<open>
  \<open>edit_post\<close>: \<open>post.title\<close> on a missing post raises \<open>AttributeError\<close>. On a valid
  submission the commit writes the five assigned columns of the row and no other; the
  exceptions of line 242 are raised before the commit.
\<close>

definition edit_row :: "create_post_form \<Rightarrow> user option \<Rightarrow> blog_post \<Rightarrow> blog_post" where
  "edit_row f a p =
     p\<lparr>post_title := form_title f,
       post_subtitle := form_subtitle f,
       post_img_url := form_img_url f,
       post_author_id := map_option user_id a,
       post_body := form_body f\<rparr>"

definition edit_post_func :: "app_state \<Rightarrow> int \<times> create_post_form option \<Rightarrow> result" where
  "edit_post_func s args =
     (case blogpost_query_get s (fst args) of
        None \<Rightarrow> (Inl AttributeError, s)
      | Some post \<Rightarrow>
          (case snd args of
             None \<Rightarrow> (Inr (Render_make_post (Some post) True True), s)
           | Some f \<Rightarrow>
               (case form_author f of
                  No_author_field \<Rightarrow> (Inl AttributeError, s)
                | Author_text t \<Rightarrow> (Inl AttributeError, s)
                | Author_object a \<Rightarrow>
                    if form_title f
                         \<in> set (map post_title
                                  (filter (\<lambda>q. post_id q \<noteq> fst args) (blog_posts s)))
                    then (Inl IntegrityError, s)
                    else (Inr (Redirect (Show_post (fst args))),
                          s\<lparr>blog_posts :=
                               map (\<lambda>q. if post_id q = fst args then edit_row f a q else q)
                                 (blog_posts s)\<rparr>))))"

definition edit_post :: "app_state \<Rightarrow> int \<times> create_post_form option \<Rightarrow> result" where
  "edit_post = admin_only edit_post_func"

text \<open>
  \<open>delete_post\<close>: \<open>db.session.delete(None)\<close> raises \<open>UnmappedInstanceError\<close>. The
  relationship \<open>blog_comments\<close> has no delete cascade, so at the flush SQLAlchemy keeps the
  comments of the deleted post and sets their \<open>post_id\<close> to NULL, then deletes the row of
  the post.
\<close>

definition detach_comment :: "int \<Rightarrow> comment \<Rightarrow> comment" where
  "detach_comment pid c =
     (if comment_post_id c = Some pid then c\<lparr>comment_post_id := None\<rparr> else c)"

definition delete_post_func :: "app_state \<Rightarrow> int \<Rightarrow> result" where
  "delete_post_func s pid =
     (case blogpost_query_get s pid of
        None \<Rightarrow> (Inl UnmappedInstanceError, s)
      | Some post \<Rightarrow>
          (Inr (Redirect Get_all_posts),
           s\<lparr>blog_posts := filter (\<lambda>q. post_id q \<noteq> post_id post) (blog_posts s),
             comments := map (detach_comment (post_id post)) (comments s)\<rparr>))"

definition delete_post :: "app_state \<Rightarrow> int \<Rightarrow> result" where
  "delete_post = admin_only delete_post_func"

subsection \<open>Example states\<close>

text \<open>
  A store with the administrator (id 1), a second account, one post and one comment on
  it; the argument is the user id held by the session. \<open>demo_security\<close> is a stand-in for
  the hash functions that the examples can evaluate; it is not a model of PBKDF2.
\<close>

definition admin_row :: user where
  "admin_row =
     \<lparr>user_id = 1, user_email = ''admin@x.com'', user_password = ''s1$pw0'',
      user_name = ''Admin''\<rparr>"

definition reader_row :: user where
  "reader_row =
     \<lparr>user_id = 2, user_email = ''a@x.com'', user_password = ''s2$pw1'',
      user_name = ''Alice''\<rparr>"

definition hello_post :: blog_post where
  "hello_post =
     \<lparr>post_id = 1, post_title = ''Hello'', post_subtitle = ''World'',
      post_date = ''March 09, 2024'', post_body = ''Body'',
      post_img_url = ''http://x/y.png'', post_author_id = Some 1\<rparr>"

definition first_comment :: comment where
  "first_comment =
     \<lparr>comment_id = 1, comment_author_id = Some 2, comment_post_id = Some 1,
      comment_text = ''Nice''\<rparr>"

definition blog_state :: "int option \<Rightarrow> app_state" where
  "blog_state sess =
     \<lparr>users = [admin_row, reader_row], blog_posts = [hello_post],
      comments = [first_comment], session_user_id = sess, flashed = []\<rparr>"

definition empty_state :: app_state where
  "empty_state =
     \<lparr>users = [], blog_posts = [], comments = [], session_user_id = None, flashed = []\<rparr>"

definition demo_security :: security where
  "demo_security =
     \<lparr>generate_password_hash = (\<lambda>pw salt. salt @ ''$'' @ pw),
      check_password_hash = (\<lambda>h pw. dropWhile (\<lambda>c. c \<noteq> CHR ''$'') h = ''$'' @ pw)\<rparr>"

definition alice_form :: register_form where
  "alice_form = \<lparr>rf_name = ''Alice'', rf_email = ''a@x.com'', rf_password = ''pw1''\<rparr>"

definition alice_login :: login_form where
  "alice_login = \<lparr>lf_email = ''a@x.com'', lf_password = ''pw1''\<rparr>"

definition hello_comment :: comment_form where
  "hello_comment = \<lparr>cf_comment = ''Thanks''\<rparr>"

definition second_post_form :: create_post_form where
  "second_post_form =
     \<lparr>form_title = ''Second'', form_subtitle = ''Post'', form_img_url = ''http://x/z.png'',
      form_body = ''Text'', form_author = Author_object (Some admin_row)\<rparr>"

definition april_5 :: datetime where
  "april_5 = \<lparr>dt_year = 2024, dt_month = April, dt_day = 5\<rparr>"

definition new_years_eve :: datetime where
  "new_years_eve = \<lparr>dt_year = 1999, dt_month = December, dt_day = 31\<rparr>"

section \<open>Properties\<close>

subsection \<open>Auxiliary facts\<close>

lemmas example_defs =
  admin_row_def reader_row_def hello_post_def first_comment_def blog_state_def empty_state_def

lemmas query_defs =
  user_query_get_def user_filter_by_email_first_def blogpost_query_get_def
  blogpost_query_all_def load_user_def current_user_def

lemma next_id_fresh: "i \<in> set ids \<Longrightarrow> i < next_id ids"
  by (induction ids) (auto simp: next_id_def)

lemma find_fresh_id: "find (\<lambda>u. user_id u = next_id (map user_id us)) us = None"
proof -
  have "\<forall>u \<in> set us. user_id u \<noteq> next_id (map user_id us)"
    using next_id_fresh [of _ "map user_id us"] by fastforce
  then show ?thesis by (simp add: find_None_iff)
qed

lemma find_append:
  "find P (xs @ ys) = (case find P xs of None \<Rightarrow> find P ys | Some x \<Rightarrow> Some x)"
  by (induction xs) auto

lemma find_distinct_key:
  "distinct (map k xs) \<Longrightarrow> x \<in> set xs \<Longrightarrow> find (\<lambda>y. k y = k x) xs = Some x"
  by (induction xs) (auto simp: rev_image_eqI)

lemma find_holds: "find P xs = Some x \<Longrightarrow> P x \<and> x \<in> set xs"
  by (induction xs) (auto split: if_splits)

lemma current_user_flash [simp]: "current_user (flash msg s) = current_user s"
  by (simp add: query_defs flash_def split: option.splits)

lemma current_user_blog_state_None: "current_user (blog_state None) = Anonymous"
  by (simp add: query_defs example_defs)

lemma current_user_blog_state_admin: "current_user (blog_state (Some 1)) = Authenticated admin_row"
  by (simp add: query_defs example_defs)

lemma current_user_blog_state_reader:
  "current_user (blog_state (Some 2)) = Authenticated reader_row"
  by (simp add: query_defs example_defs)

subsection \<open>The admin gate\<close>

text \<open>
  The wrapped view runs for the authenticated user with id 1; any other authenticated
  user gets \<open>abort(403)\<close>; the anonymous user gets the \<open>AttributeError\<close> of
  \<open>current_user.id\<close>. In the last two cases the state is the one before the request.
\<close>

lemma admin_only_admin:
  "current_user s = Authenticated u \<Longrightarrow> user_id u = 1 \<Longrightarrow> admin_only func s args = func s args"
  by (simp add: admin_only_def)

lemma admin_only_forbidden:
  "current_user s = Authenticated u \<Longrightarrow> user_id u \<noteq> 1 \<Longrightarrow>
     admin_only func s args = (Inl (HTTPException 403), s)"
  by (simp add: admin_only_def)

lemma admin_only_anonymous:
  "current_user s = Anonymous \<Longrightarrow> admin_only func s args = (Inl AttributeError, s)"
  by (simp add: admin_only_def)

lemma admin_only_refused_unchanged:
  "\<not> (\<exists>u. current_user s = Authenticated u \<and> user_id u = 1) \<Longrightarrow>
     snd (admin_only func s args) = s \<and> (\<exists>e. fst (admin_only func s args) = Inl e)"
  by (cases "current_user s") (auto simp: admin_only_def)

lemma admin_only_reader_forbidden:
  "delete_post (blog_state (Some 2)) 1 = (Inl (HTTPException 403), blog_state (Some 2))"
  by (simp add: delete_post_def admin_only_def current_user_blog_state_reader reader_row_def)

text \<open>
  C1. The admin gate of create-post, edit-post and delete-post lets a principal through
  only if it is authenticated with id 1, and every other principal, authenticated or
  anonymous, is to get Forbidden (403) before any mutation. At the anonymous principal
  the three gated views raise \<open>AttributeError\<close> instead of answering 403 (the state is
  unchanged).
\<close>

theorem admin_only_anonymous_raises:
  "make_post (blog_state None) (now, form) = (Inl AttributeError, blog_state None)
   \<and> edit_post (blog_state None) (1, eform) = (Inl AttributeError, blog_state None)
   \<and> delete_post (blog_state None) 1 = (Inl AttributeError, blog_state None)
   \<and> fst (delete_post (blog_state None) 1) \<noteq> Inl (HTTPException 403)"
  by (simp add: make_post_def edit_post_def delete_post_def admin_only_def
      current_user_blog_state_None)

subsection \<open>Registration\<close>

text \<open>
  C2. When the email of a valid registration form is already in the identity store, the
  request adds no user row: the store is unchanged, the notice
  "This email has been registered. Login with the email" is flashed and the response is
  the redirect to the login page.
\<close>

theorem register_duplicate_email:
  "user_filter_by_email_first s (rf_email f) = Some u \<Longrightarrow>
     register sec s salt (Some f)
       = (Inr (Redirect Login), flash ''This email has been registered. Login with the email'' s)
     \<and> users (snd (register sec s salt (Some f))) = users s
     \<and> blog_posts (snd (register sec s salt (Some f))) = blog_posts s
     \<and> comments (snd (register sec s salt (Some f))) = comments s
     \<and> session_user_id (snd (register sec s salt (Some f))) = session_user_id s
     \<and> flashed (snd (register sec s salt (Some f)))
         = flashed s @ [''This email has been registered. Login with the email'']"
  by (simp add: register_def flash_def)

theorem register_duplicate_email_witness:
  "user_filter_by_email_first (blog_state None) (rf_email alice_form) = Some reader_row
   \<and> fst (register demo_security (blog_state None) ''s3'' (Some alice_form))
       = Inr (Redirect Login)
   \<and> users (snd (register demo_security (blog_state None) ''s3'' (Some alice_form)))
       = [admin_row, reader_row]"
proof -
  have h: "user_filter_by_email_first (blog_state None) (rf_email alice_form) = Some reader_row"
    by (simp add: user_filter_by_email_first_def example_defs alice_form_def)
  have u: "users (blog_state None) = [admin_row, reader_row]"
    by (simp add: blog_state_def)
  show ?thesis
    using h u register_duplicate_email [OF h, of demo_security "''s3''"]
    by (simp add: flash_def)
qed

lemma users_flash [simp]: "users (flash msg s) = users s"
  and session_flash [simp]: "session_user_id (flash msg s) = session_user_id s"
  and posts_flash [simp]: "blog_posts (flash msg s) = blog_posts s"
  and comments_flash [simp]: "comments (flash msg s) = comments s"
  and flashed_flash [simp]: "flashed (flash msg s) = flashed s @ [msg]"
  by (simp_all add: flash_def)

lemma current_user_login_user:
  "distinct (map user_id (users s)) \<Longrightarrow> u \<in> set (users s) \<Longrightarrow>
     current_user (login_user u s) = Authenticated u"
  using find_distinct_key [of user_id "users s" u]
  by (simp add: query_defs login_user_def)

subsection \<open>Login\<close>

text \<open>
  C3. A valid login form whose email is registered and whose password the stored hash
  accepts is answered with the redirect to the post listing, and the session principal
  becomes that user (ids are the primary key of the table, hence distinct). An email that
  is not registered gets the notice "This email does not exist. Please try again" and the
  redirect to the login form; a password that the hash rejects gets the notice
  "Password incorrect. Please try again" and the login page. In both failures the session
  and the current principal are the ones before the request.
\<close>

theorem login_outcomes:
  "(user_filter_by_email_first s (lf_email f) = Some u
      \<and> check_password_hash sec (user_password u) (lf_password f)
      \<and> distinct (map user_id (users s))
    \<longrightarrow> fst (login sec s (Some f)) = Inr (Redirect Get_all_posts)
        \<and> session_user_id (snd (login sec s (Some f))) = Some (user_id u)
        \<and> current_user (snd (login sec s (Some f))) = Authenticated u
        \<and> flashed (snd (login sec s (Some f))) = flashed s
        \<and> users (snd (login sec s (Some f))) = users s)
   \<and> (user_filter_by_email_first s (lf_email f) = None
    \<longrightarrow> login sec s (Some f)
          = (Inr (Redirect Login), flash ''This email does not exist. Please try again'' s)
        \<and> flashed (snd (login sec s (Some f)))
            = flashed s @ [''This email does not exist. Please try again'']
        \<and> users (snd (login sec s (Some f))) = users s
        \<and> session_user_id (snd (login sec s (Some f))) = session_user_id s
        \<and> current_user (snd (login sec s (Some f))) = current_user s)
   \<and> (user_filter_by_email_first s (lf_email f) = Some u
      \<and> \<not> check_password_hash sec (user_password u) (lf_password f)
    \<longrightarrow> login sec s (Some f)
          = (Inr (Render_login (is_authenticated (current_user s))),
             flash ''Password incorrect. Please try again'' s)
        \<and> flashed (snd (login sec s (Some f)))
            = flashed s @ [''Password incorrect. Please try again'']
        \<and> users (snd (login sec s (Some f))) = users s
        \<and> session_user_id (snd (login sec s (Some f))) = session_user_id s
        \<and> current_user (snd (login sec s (Some f))) = current_user s)"
proof (intro conjI impI)
  assume a: "user_filter_by_email_first s (lf_email f) = Some u
      \<and> check_password_hash sec (user_password u) (lf_password f)
      \<and> distinct (map user_id (users s))"
  then have eq: "login sec s (Some f) = (Inr (Redirect Get_all_posts), login_user u s)"
    by (simp add: login_def)
  from a have mem: "u \<in> set (users s)"
    using find_holds [of "\<lambda>v. user_email v = lf_email f" "users s" u]
    by (simp add: user_filter_by_email_first_def)
  show "fst (login sec s (Some f)) = Inr (Redirect Get_all_posts)"
    by (simp add: eq)
  show "session_user_id (snd (login sec s (Some f))) = Some (user_id u)"
    by (simp add: eq login_user_def)
  show "current_user (snd (login sec s (Some f))) = Authenticated u"
    using a mem by (simp add: eq current_user_login_user)
  show "flashed (snd (login sec s (Some f))) = flashed s"
    by (simp add: eq login_user_def)
  show "users (snd (login sec s (Some f))) = users s"
    by (simp add: eq login_user_def)
qed (simp_all add: login_def Let_def)

theorem login_outcomes_witness:
  "(user_filter_by_email_first (blog_state None) (lf_email alice_login) = Some reader_row
      \<and> check_password_hash demo_security (user_password reader_row) (lf_password alice_login)
      \<and> distinct (map user_id (users (blog_state None))))
   \<and> current_user (snd (login demo_security (blog_state None) (Some alice_login)))
       = Authenticated reader_row
   \<and> flashed (snd (login demo_security (blog_state None) (Some alice_login))) = []
   \<and> user_filter_by_email_first (blog_state None) ''nobody@x.com'' = None
   \<and> fst (login demo_security (blog_state None)
            (Some \<lparr>lf_email = ''nobody@x.com'', lf_password = ''pw1''\<rparr>)) = Inr (Redirect Login)
   \<and> flashed (snd (login demo_security (blog_state None)
            (Some \<lparr>lf_email = ''nobody@x.com'', lf_password = ''pw1''\<rparr>)))
       = [''This email does not exist. Please try again'']
   \<and> session_user_id (snd (login demo_security (blog_state None)
            (Some \<lparr>lf_email = ''nobody@x.com'', lf_password = ''pw1''\<rparr>))) = None
   \<and> \<not> check_password_hash demo_security (user_password reader_row) ''wrong''
   \<and> fst (login demo_security (blog_state None)
            (Some \<lparr>lf_email = ''a@x.com'', lf_password = ''wrong''\<rparr>)) = Inr (Render_login False)
   \<and> flashed (snd (login demo_security (blog_state None)
            (Some \<lparr>lf_email = ''a@x.com'', lf_password = ''wrong''\<rparr>)))
       = [''Password incorrect. Please try again'']
   \<and> session_user_id (snd (login demo_security (blog_state None)
            (Some \<lparr>lf_email = ''a@x.com'', lf_password = ''wrong''\<rparr>))) = None"
proof -
  have h1: "user_filter_by_email_first (blog_state None) (lf_email alice_login) = Some reader_row
      \<and> check_password_hash demo_security (user_password reader_row) (lf_password alice_login)
      \<and> distinct (map user_id (users (blog_state None)))"
    by (simp add: user_filter_by_email_first_def example_defs alice_login_def demo_security_def)
  have h2: "user_filter_by_email_first (blog_state None)
              (lf_email \<lparr>lf_email = ''nobody@x.com'', lf_password = ''pw1''\<rparr>) = None"
    by (simp add: user_filter_by_email_first_def example_defs)
  have h3: "user_filter_by_email_first (blog_state None)
              (lf_email \<lparr>lf_email = ''a@x.com'', lf_password = ''wrong''\<rparr>) = Some reader_row
      \<and> \<not> check_password_hash demo_security (user_password reader_row)
             (lf_password \<lparr>lf_email = ''a@x.com'', lf_password = ''wrong''\<rparr>)"
    by (simp add: user_filter_by_email_first_def example_defs demo_security_def)
  note t1 = login_outcomes [of "blog_state None" alice_login reader_row demo_security]
  note t2 = login_outcomes [of "blog_state None" "\<lparr>lf_email = ''nobody@x.com'', lf_password = ''pw1''\<rparr>"
                               reader_row demo_security]
  note t3 = login_outcomes [of "blog_state None" "\<lparr>lf_email = ''a@x.com'', lf_password = ''wrong''\<rparr>"
                               reader_row demo_security]
  have fl: "flashed (blog_state None) = []" and se: "session_user_id (blog_state None) = None"
    by (simp_all add: blog_state_def)
  show ?thesis
    using h1 h2 h3 t1 t2 t3 by (simp add: current_user_blog_state_None fl se)
qed

lemma register_then_login:
  assumes hash: "\<And>pw salt. check_password_hash sec (generate_password_hash sec pw salt) pw"
    and fresh: "user_filter_by_email_first s (rf_email f) = None"
  shows "fst (register sec s salt (Some f)) = Inr (Redirect Get_all_posts)
     \<and> fst (login sec (snd (register sec s salt (Some f)))
            (Some \<lparr>lf_email = rf_email f, lf_password = rf_password f\<rparr>))
         = Inr (Redirect Get_all_posts)
     \<and> current_user (snd (login sec (snd (register sec s salt (Some f)))
            (Some \<lparr>lf_email = rf_email f, lf_password = rf_password f\<rparr>)))
         = Authenticated
             \<lparr>user_id = next_id (map user_id (users s)), user_email = rf_email f,
              user_password = generate_password_hash sec (rf_password f) salt,
              user_name = rf_name f\<rparr>"
  using fresh hash find_fresh_id [of "users s"]
  by (simp add: register_def login_def Let_def query_defs login_user_def find_append)

text \<open>
  C7. A successful registration appends the new user row and leaves the session alone:
  a caller without a session principal is still anonymous afterwards.
\<close>

theorem register_keeps_session:
  "user_filter_by_email_first s (rf_email f) = None \<Longrightarrow> session_user_id s = None \<Longrightarrow>
     fst (register sec s salt (Some f)) = Inr (Redirect Get_all_posts)
     \<and> users (snd (register sec s salt (Some f)))
         = users s @ [\<lparr>user_id = next_id (map user_id (users s)), user_email = rf_email f,
                        user_password = generate_password_hash sec (rf_password f) salt,
                        user_name = rf_name f\<rparr>]
     \<and> session_user_id (snd (register sec s salt (Some f))) = None
     \<and> current_user (snd (register sec s salt (Some f))) = Anonymous"
  by (simp add: register_def Let_def current_user_def)

lemma register_session_unchanged:
  "session_user_id (snd (register sec s salt form)) = session_user_id s"
  by (simp add: register_def Let_def flash_def split: option.splits)

theorem register_keeps_session_witness:
  "user_filter_by_email_first empty_state (rf_email alice_form) = None
   \<and> session_user_id empty_state = None
   \<and> users (snd (register demo_security empty_state ''s2'' (Some alice_form)))
       = [\<lparr>user_id = 1, user_email = ''a@x.com'', user_password = ''s2$pw1'', user_name = ''Alice''\<rparr>]
   \<and> current_user (snd (register demo_security empty_state ''s2'' (Some alice_form))) = Anonymous"
proof -
  have h1: "user_filter_by_email_first empty_state (rf_email alice_form) = None"
    by (simp add: user_filter_by_email_first_def empty_state_def)
  have h2: "session_user_id empty_state = None"
    by (simp add: empty_state_def)
  show ?thesis
    using h1 h2 register_keeps_session [OF h1 h2, of demo_security "''s2''"]
    by (simp add: empty_state_def alice_form_def demo_security_def next_id_def)
qed

lemma register_keeps_ids_distinct:
  "distinct (map user_id (users s)) \<Longrightarrow>
     distinct (map user_id (users (snd (register sec s salt form))))"
  using next_id_fresh [of "next_id (map user_id (users s))" "map user_id (users s)"]
  by (auto simp: register_def Let_def split: option.splits)

lemma register_keeps_emails_distinct:
  "distinct (map user_email (users s)) \<Longrightarrow>
     distinct (map user_email (users (snd (register sec s salt form))))"
  by (auto simp: register_def Let_def user_filter_by_email_first_def find_None_iff
      split: option.splits)

lemma register_twice:
  "rf_email g = rf_email f \<Longrightarrow>
     users (snd (register sec (snd (register sec s salt (Some f))) salt' (Some g)))
       = users (snd (register sec s salt (Some f)))"
  by (auto simp: register_def Let_def user_filter_by_email_first_def find_append
      split: option.splits)

lemma register_makes_registered:
  "check_password_hash sec (generate_password_hash sec (rf_password f) salt) (rf_password f) \<Longrightarrow>
   user_filter_by_email_first s (rf_email f) = None \<Longrightarrow>
     \<exists>u. user_filter_by_email_first (snd (register sec s salt (Some f))) (rf_email f) = Some u
       \<and> check_password_hash sec (user_password u) (rf_password f)"
  by (simp add: register_def Let_def user_filter_by_email_first_def find_append)

lemma blogpost_query_get_id: "blogpost_query_get s i = Some p \<Longrightarrow> post_id p = i"
  using find_holds [of "\<lambda>p. post_id p = i" "blog_posts s" p]
  by (simp add: blogpost_query_get_def)

subsection \<open>Viewing a post and commenting\<close>

text \<open>
  C4. A valid comment form from an anonymous caller adds no comment row (no request of
  an anonymous caller to this view does), flashes "You need to login or register to
  comment." and redirects to the login page. From an authenticated caller it appends
  exactly one row, whose author is the current user and whose post reference is the
  requested post (the id of the URL when that post exists), and redirects to the same
  post.
\<close>

theorem show_post_comment:
  "(current_user s = Anonymous
    \<longrightarrow> show_post s index (Some f)
          = (Inr (Redirect Login), flash ''You need to login or register to comment.'' s)
        \<and> flashed (snd (show_post s index (Some f)))
            = flashed s @ [''You need to login or register to comment.'']
        \<and> comments (snd (show_post s index form)) = comments s)
   \<and> (current_user s = Authenticated u
    \<longrightarrow> fst (show_post s index (Some f)) = Inr (Redirect (Show_post index))
        \<and> comments (snd (show_post s index (Some f)))
            = comments s
                @ [\<lparr>comment_id = next_id (map comment_id (comments s)),
                    comment_author_id = Some (user_id u),
                    comment_post_id = map_option post_id (blogpost_query_get s index),
                    comment_text = cf_comment f\<rparr>]
        \<and> (blogpost_query_get s index \<noteq> None
             \<longrightarrow> map_option post_id (blogpost_query_get s index) = Some index)
        \<and> users (snd (show_post s index (Some f))) = users s
        \<and> blog_posts (snd (show_post s index (Some f))) = blog_posts s
        \<and> session_user_id (snd (show_post s index (Some f))) = session_user_id s
        \<and> flashed (snd (show_post s index (Some f))) = flashed s)"
proof (intro conjI impI)
  assume "blogpost_query_get s index \<noteq> None"
  then show "map_option post_id (blogpost_query_get s index) = Some index"
    using blogpost_query_get_id [of s index] by auto
qed (simp_all add: show_post_def Let_def split: option.splits)

theorem show_post_comment_witness:
  "current_user (blog_state None) = Anonymous
   \<and> fst (show_post (blog_state None) 1 (Some hello_comment)) = Inr (Redirect Login)
   \<and> flashed (snd (show_post (blog_state None) 1 (Some hello_comment)))
       = [''You need to login or register to comment.'']
   \<and> comments (snd (show_post (blog_state None) 1 (Some hello_comment))) = [first_comment]
   \<and> current_user (blog_state (Some 2)) = Authenticated reader_row
   \<and> blogpost_query_get (blog_state (Some 2)) 1 \<noteq> None
   \<and> fst (show_post (blog_state (Some 2)) 1 (Some hello_comment)) = Inr (Redirect (Show_post 1))
   \<and> comments (snd (show_post (blog_state (Some 2)) 1 (Some hello_comment)))
       = [first_comment,
          \<lparr>comment_id = 2, comment_author_id = Some 2, comment_post_id = Some 1,
           comment_text = ''Thanks''\<rparr>]"
proof -
  have h1: "current_user (blog_state None) = Anonymous"
    by (rule current_user_blog_state_None)
  have h2: "current_user (blog_state (Some 2)) = Authenticated reader_row"
    by (rule current_user_blog_state_reader)
  have g: "blogpost_query_get (blog_state (Some 2)) 1 = Some hello_post"
    by (simp add: blogpost_query_get_def example_defs)
  have h3: "blogpost_query_get (blog_state (Some 2)) 1 \<noteq> None"
    by (simp add: g)
  have i: "post_id hello_post = 1"
    by (simp add: hello_post_def)
  have c: "comments (blog_state sess) = [first_comment]" for sess
    by (simp add: blog_state_def)
  have n: "next_id [comment_id first_comment] = 2"
    by (simp add: next_id_def first_comment_def)
  have fl: "flashed (blog_state sess) = []" for sess
    by (simp add: blog_state_def)
  note t1 = show_post_comment [of "blog_state None" 1 hello_comment "Some hello_comment" reader_row]
  note t2 = show_post_comment [of "blog_state (Some 2)" 1 hello_comment "Some hello_comment" reader_row]
  show ?thesis
    using h1 h2 h3 t1 t2 by (simp add: c n g i fl hello_comment_def reader_row_def)
qed

text \<open>
  C9. A request to view a post that submits no valid comment form is answered with the
  rendered post page, never with the redirect to the login page, for the anonymous
  caller as for any other; the page is rendered with \<open>logged_in=True\<close> and the state is
  unchanged.
\<close>

theorem show_post_get_renders:
  "fst (show_post s index None)
     = Inr (Render_post (blogpost_query_get s index) True (current_user s) index)
   \<and> fst (show_post s index None) \<noteq> Inr (Redirect Login)
   \<and> snd (show_post s index None) = s"
  by (simp add: show_post_def Let_def)

lemma show_post_get_anonymous_example:
  "show_post (blog_state None) 1 None
     = (Inr (Render_post (Some hello_post) True Anonymous 1), blog_state None)"
  unfolding show_post_def Let_def current_user_blog_state_None
  by (simp add: blogpost_query_get_def example_defs)

text \<open>
  C10. For a post id that is not in the store, the view raises nothing: the page is
  rendered with no post, and a valid comment form of an authenticated caller is committed
  as a comment row whose post reference is null.
\<close>

theorem show_post_absent_post:
  "blogpost_query_get s index = None \<Longrightarrow>
     show_post s index None = (Inr (Render_post None True (current_user s) index), s)
     \<and> fst (show_post s index None) \<noteq> Inl (HTTPException 404)
     \<and> (current_user s = Authenticated u
         \<longrightarrow> show_post s index (Some f)
               = (Inr (Redirect (Show_post index)),
                  s\<lparr>comments := comments s
                      @ [\<lparr>comment_id = next_id (map comment_id (comments s)),
                          comment_author_id = Some (user_id u),
                          comment_post_id = None,
                          comment_text = cf_comment f\<rparr>]\<rparr>))"
  by (simp add: show_post_def Let_def)

theorem show_post_absent_post_witness:
  "blogpost_query_get (blog_state (Some 2)) 7 = None
   \<and> current_user (blog_state (Some 2)) = Authenticated reader_row
   \<and> fst (show_post (blog_state (Some 2)) 7 None) = Inr (Render_post None True (Authenticated reader_row) 7)
   \<and> comments (snd (show_post (blog_state (Some 2)) 7 (Some hello_comment)))
       = [first_comment,
          \<lparr>comment_id = 2, comment_author_id = Some 2, comment_post_id = None,
           comment_text = ''Thanks''\<rparr>]"
proof -
  have h1: "blogpost_query_get (blog_state (Some 2)) 7 = None"
    by (simp add: blogpost_query_get_def example_defs)
  have h2: "current_user (blog_state (Some 2)) = Authenticated reader_row"
    by (rule current_user_blog_state_reader)
  have c: "comments (blog_state sess) = [first_comment]" for sess
    by (simp add: blog_state_def)
  have n: "next_id [comment_id first_comment] = 2"
    by (simp add: next_id_def first_comment_def)
  show ?thesis
    using h1 h2 show_post_absent_post [OF h1, of reader_row hello_comment]
    by (simp add: c n hello_comment_def reader_row_def)
qed

lemma current_user_cong:
  "users s' = users s \<Longrightarrow> session_user_id s' = session_user_id s \<Longrightarrow>
     current_user s' = current_user s"
  by (simp add: query_defs split: option.splits)

lemma edit_row_keeps [simp]:
  "post_date (edit_row f a p) = post_date p" "post_id (edit_row f a p) = post_id p"
  by (simp_all add: edit_row_def)

lemma strftime_april_5: "strftime april_5 = ''April 05, 2024''"
  by (simp add: strftime_def april_5_def decimal.simps digit_def)

lemma edit_post_func_frame:
  "map post_date (blog_posts (snd (edit_post_func s (pid, eform)))) = map post_date (blog_posts s)
   \<and> map post_id (blog_posts (snd (edit_post_func s (pid, eform)))) = map post_id (blog_posts s)
   \<and> filter (\<lambda>q. post_id q \<noteq> pid) (blog_posts (snd (edit_post_func s (pid, eform))))
       = filter (\<lambda>q. post_id q \<noteq> pid) (blog_posts s)
   \<and> users (snd (edit_post_func s (pid, eform))) = users s
   \<and> comments (snd (edit_post_func s (pid, eform))) = comments s
   \<and> session_user_id (snd (edit_post_func s (pid, eform))) = session_user_id s"
proof -
  have d: "map post_date (map (\<lambda>q. if post_id q = pid then edit_row f a q else q) ps)
             = map post_date ps" for f a and ps :: "blog_post list"
    by (induction ps) auto
  have i: "map post_id (map (\<lambda>q. if post_id q = pid then edit_row f a q else q) ps)
             = map post_id ps" for f a and ps :: "blog_post list"
    by (induction ps) auto
  have r: "filter (\<lambda>q. post_id q \<noteq> pid)
             (map (\<lambda>q. if post_id q = pid then edit_row f a q else q) ps)
             = filter (\<lambda>q. post_id q \<noteq> pid) ps" for f a and ps :: "blog_post list"
    by (induction ps) auto
  show ?thesis
    by (simp add: edit_post_func_def d i r del: map_map
        split: option.splits author_data.splits)
qed

lemma admin_only_cases:
  "admin_only func s args = func s args \<or> snd (admin_only func s args) = s"
  by (cases "current_user s") (auto simp: admin_only_def)

subsection \<open>Creating and editing posts\<close>

text \<open>
  What \<open>strftime\<close> writes, digit by digit, for a day below 100 and a year of four
  digits (\<open>datetime.now()\<close> gives a day from 1 to 31; \<open>%Y\<close> of a year below 1000 depends on
  the platform).
\<close>

lemma decimal_one_digit: "n < 10 \<Longrightarrow> decimal n = [''0123456789'' ! n]"
  by (simp add: decimal.simps digit_def)

lemma decimal_two_digits:
  "10 \<le> n \<Longrightarrow> n < 100 \<Longrightarrow>
     decimal n = [''0123456789'' ! (n div 10), ''0123456789'' ! (n mod 10)]"
proof -
  assume a: "10 \<le> n" "n < 100"
  then have "n div 10 < 10" by simp
  then show ?thesis
    using a decimal.simps [of n] by (simp add: decimal_one_digit digit_def)
qed

lemma day_two_digits:
  "d < 100 \<Longrightarrow>
     (if d < 10 then ''0'' @ decimal d else decimal d)
       = [''0123456789'' ! (d div 10), ''0123456789'' ! (d mod 10)]"
  by (simp add: decimal_one_digit decimal_two_digits)

lemma decimal_three_digits:
  "100 \<le> n \<Longrightarrow> n < 1000 \<Longrightarrow>
     decimal n = [''0123456789'' ! (n div 100), ''0123456789'' ! (n div 10 mod 10),
                  ''0123456789'' ! (n mod 10)]"
proof -
  assume a: "100 \<le> n" "n < 1000"
  then have b: "10 \<le> n div 10" "n div 10 < 100" by simp_all
  have c: "n div 10 div 10 = n div 100" by (simp add: div_mult2_eq)
  show ?thesis
    using a decimal.simps [of n] decimal_two_digits [OF b] by (simp add: c digit_def)
qed

lemma decimal_four_digits:
  "1000 \<le> n \<Longrightarrow> n < 10000 \<Longrightarrow>
     decimal n = [''0123456789'' ! (n div 1000), ''0123456789'' ! (n div 100 mod 10),
                  ''0123456789'' ! (n div 10 mod 10), ''0123456789'' ! (n mod 10)]"
proof -
  assume a: "1000 \<le> n" "n < 10000"
  then have b: "100 \<le> n div 10" "n div 10 < 1000" by simp_all
  have c: "n div 10 div 100 = n div 1000" "n div 10 div 10 = n div 100"
    by (simp_all add: div_mult2_eq)
  show ?thesis
    using a decimal.simps [of n] decimal_three_digits [OF b] by (simp add: c digit_def)
qed

lemma strftime_long_date:
  "dt_day d < 100 \<Longrightarrow> 1000 \<le> dt_year d \<Longrightarrow> dt_year d < 10000 \<Longrightarrow>
     strftime d
       = (case dt_month d of
            January \<Rightarrow> ''January'' | February \<Rightarrow> ''February'' | March \<Rightarrow> ''March''
          | April \<Rightarrow> ''April'' | May \<Rightarrow> ''May'' | June \<Rightarrow> ''June'' | July \<Rightarrow> ''July''
          | August \<Rightarrow> ''August'' | September \<Rightarrow> ''September'' | October \<Rightarrow> ''October''
          | November \<Rightarrow> ''November'' | December \<Rightarrow> ''December'')
         @ '' ''
         @ [''0123456789'' ! (dt_day d div 10), ''0123456789'' ! (dt_day d mod 10)]
         @ '', ''
         @ [''0123456789'' ! (dt_year d div 1000), ''0123456789'' ! (dt_year d div 100 mod 10),
            ''0123456789'' ! (dt_year d div 10 mod 10), ''0123456789'' ! (dt_year d mod 10)]"
  unfolding strftime_def
  by (simp only: day_two_digits decimal_four_digits) (cases "dt_month d"; simp)

text \<open>
  C5. A post that \<open>make_post\<close> creates gets the date \<open>strftime now\<close>, and the dates of the
  posts before it stay; for a day below 100 and a year of four digits that date is the
  English name of the month, a space, the day on two digits, a comma and a space, and the
  four digits of the year. \<open>edit_post\<close>, whatever the caller, the id and the form, leaves the
  date and the id of every post, every post with another id, the users, the comments and
  the session as they were: only title, subtitle, image URL, author and body of the
  edited post can change.
\<close>

theorem publish_date_frame:
  "(fst (make_post s (now, form)) = Inr (Redirect Get_all_posts)
    \<longrightarrow> map post_date (blog_posts (snd (make_post s (now, form))))
          = map post_date (blog_posts s) @ [strftime now])
   \<and> (fst (make_post s (now, form)) = Inr (Redirect Get_all_posts)
      \<and> dt_day now < 100 \<and> 1000 \<le> dt_year now \<and> dt_year now < 10000
    \<longrightarrow> map post_date (blog_posts (snd (make_post s (now, form))))
          = map post_date (blog_posts s)
            @ [(case dt_month now of
                   January \<Rightarrow> ''January'' | February \<Rightarrow> ''February'' | March \<Rightarrow> ''March''
                 | April \<Rightarrow> ''April'' | May \<Rightarrow> ''May'' | June \<Rightarrow> ''June''
                 | July \<Rightarrow> ''July'' | August \<Rightarrow> ''August'' | September \<Rightarrow> ''September''
                 | October \<Rightarrow> ''October'' | November \<Rightarrow> ''November''
                 | December \<Rightarrow> ''December'')
                @ '' ''
                @ [''0123456789'' ! (dt_day now div 10), ''0123456789'' ! (dt_day now mod 10)]
                @ '', ''
                @ [''0123456789'' ! (dt_year now div 1000),
                   ''0123456789'' ! (dt_year now div 100 mod 10),
                   ''0123456789'' ! (dt_year now div 10 mod 10),
                   ''0123456789'' ! (dt_year now mod 10)]])
   \<and> map post_date (blog_posts (snd (edit_post s (pid, eform)))) = map post_date (blog_posts s)
   \<and> map post_id (blog_posts (snd (edit_post s (pid, eform)))) = map post_id (blog_posts s)
   \<and> filter (\<lambda>q. post_id q \<noteq> pid) (blog_posts (snd (edit_post s (pid, eform))))
       = filter (\<lambda>q. post_id q \<noteq> pid) (blog_posts s)
   \<and> users (snd (edit_post s (pid, eform))) = users s
   \<and> comments (snd (edit_post s (pid, eform))) = comments s
   \<and> session_user_id (snd (edit_post s (pid, eform))) = session_user_id s"
proof -
  have mk: "fst (make_post s (now, form)) = Inr (Redirect Get_all_posts)
    \<longrightarrow> map post_date (blog_posts (snd (make_post s (now, form))))
          = map post_date (blog_posts s) @ [strftime now]"
    by (auto simp: make_post_def admin_only_def make_post_func_def Let_def
        split: principal.splits option.splits if_splits)
  have ed: "edit_post s (pid, eform) = edit_post_func s (pid, eform)
            \<or> snd (edit_post s (pid, eform)) = s"
    unfolding edit_post_def by (rule admin_only_cases)
  have long: "fst (make_post s (now, form)) = Inr (Redirect Get_all_posts)
      \<and> dt_day now < 100 \<and> 1000 \<le> dt_year now \<and> dt_year now < 10000
    \<longrightarrow> map post_date (blog_posts (snd (make_post s (now, form))))
          = map post_date (blog_posts s)
            @ [(case dt_month now of
                   January \<Rightarrow> ''January'' | February \<Rightarrow> ''February'' | March \<Rightarrow> ''March''
                 | April \<Rightarrow> ''April'' | May \<Rightarrow> ''May'' | June \<Rightarrow> ''June''
                 | July \<Rightarrow> ''July'' | August \<Rightarrow> ''August'' | September \<Rightarrow> ''September''
                 | October \<Rightarrow> ''October'' | November \<Rightarrow> ''November''
                 | December \<Rightarrow> ''December'')
                @ '' ''
                @ [''0123456789'' ! (dt_day now div 10), ''0123456789'' ! (dt_day now mod 10)]
                @ '', ''
                @ [''0123456789'' ! (dt_year now div 1000),
                   ''0123456789'' ! (dt_year now div 100 mod 10),
                   ''0123456789'' ! (dt_year now div 10 mod 10),
                   ''0123456789'' ! (dt_year now mod 10)]]"
    using mk strftime_long_date [of now] by auto
  have fr: "map post_date (blog_posts (snd (edit_post s (pid, eform)))) = map post_date (blog_posts s)
   \<and> map post_id (blog_posts (snd (edit_post s (pid, eform)))) = map post_id (blog_posts s)
   \<and> filter (\<lambda>q. post_id q \<noteq> pid) (blog_posts (snd (edit_post s (pid, eform))))
       = filter (\<lambda>q. post_id q \<noteq> pid) (blog_posts s)
   \<and> users (snd (edit_post s (pid, eform))) = users s
   \<and> comments (snd (edit_post s (pid, eform))) = comments s
   \<and> session_user_id (snd (edit_post s (pid, eform))) = session_user_id s"
    using ed edit_post_func_frame [of s pid eform] by auto
  show ?thesis
    using mk long fr by blast
qed

lemma edit_post_success:
  "current_user s = Authenticated u \<Longrightarrow> user_id u = 1 \<Longrightarrow>
   blogpost_query_get s pid = Some p \<Longrightarrow> form_author f = Author_object a \<Longrightarrow>
   form_title f \<notin> set (map post_title (filter (\<lambda>q. post_id q \<noteq> pid) (blog_posts s))) \<Longrightarrow>
     edit_post s (pid, Some f)
       = (Inr (Redirect (Show_post pid)),
          s\<lparr>blog_posts := map (\<lambda>q. if post_id q = pid then edit_row f a q else q) (blog_posts s)\<rparr>)"
  by (simp add: edit_post_def admin_only_def edit_post_func_def)

theorem publish_date_frame_witness:
  "fst (make_post (blog_state (Some 1)) (april_5, Some second_post_form))
     = Inr (Redirect Get_all_posts)
   \<and> dt_day april_5 < 100 \<and> 1000 \<le> dt_year april_5 \<and> dt_year april_5 < 10000
   \<and> map post_date (blog_posts (snd (make_post (blog_state (Some 1)) (april_5, Some second_post_form))))
       = [''March 09, 2024'', ''April 05, 2024'']
   \<and> fst (make_post (blog_state (Some 1)) (new_years_eve, Some second_post_form))
       = Inr (Redirect Get_all_posts)
   \<and> dt_day new_years_eve < 100 \<and> 1000 \<le> dt_year new_years_eve
   \<and> dt_year new_years_eve < 10000
   \<and> map post_date
         (blog_posts (snd (make_post (blog_state (Some 1)) (new_years_eve, Some second_post_form))))
       = [''March 09, 2024'', ''December 31, 1999'']
   \<and> map post_date (blog_posts (snd (edit_post (blog_state (Some 1)) (1, Some second_post_form))))
       = [''March 09, 2024'']
   \<and> map post_title (blog_posts (snd (edit_post (blog_state (Some 1)) (1, Some second_post_form))))
       = [''Second'']"
proof -
  have h: "fst (make_post (blog_state (Some 1)) (now, Some second_post_form))
     = Inr (Redirect Get_all_posts)" for now
    unfolding make_post_def admin_only_def current_user_blog_state_admin make_post_func_def
    by (simp add: example_defs second_post_form_def)
  have r1: "dt_day april_5 < 100 \<and> 1000 \<le> dt_year april_5 \<and> dt_year april_5 < 10000"
    by (simp add: april_5_def)
  have r2: "dt_day new_years_eve < 100 \<and> 1000 \<le> dt_year new_years_eve
      \<and> dt_year new_years_eve < 10000"
    by (simp add: new_years_eve_def)
  have e: "map post_title (blog_posts (snd (edit_post (blog_state (Some 1)) (1, Some second_post_form))))
       = [''Second'']"
    unfolding edit_post_def admin_only_def current_user_blog_state_admin edit_post_func_def
    by (simp add: example_defs second_post_form_def blogpost_query_get_def edit_row_def)
  have d: "map post_date (blog_posts (blog_state (Some 1))) = [''March 09, 2024'']"
    by (simp add: example_defs)
  have m1: "dt_month april_5 = April" "dt_day april_5 = 5" "dt_year april_5 = 2024"
    by (simp_all add: april_5_def)
  have m2: "dt_month new_years_eve = December" "dt_day new_years_eve = 31"
    "dt_year new_years_eve = 1999"
    by (simp_all add: new_years_eve_def)
  note t1 = publish_date_frame [of "blog_state (Some 1)" april_5 "Some second_post_form" 1
        "Some second_post_form"]
  note t2 = publish_date_frame [of "blog_state (Some 1)" new_years_eve "Some second_post_form" 1
        "Some second_post_form"]
  have c1: "map post_date
         (blog_posts (snd (make_post (blog_state (Some 1)) (april_5, Some second_post_form))))
       = [''March 09, 2024'', ''April 05, 2024'']"
    using t1 [THEN conjunct2, THEN conjunct1] h [of april_5] r1 by (simp add: d m1)
  have c2: "map post_date
         (blog_posts (snd (make_post (blog_state (Some 1)) (new_years_eve, Some second_post_form))))
       = [''March 09, 2024'', ''December 31, 1999'']"
    using t2 [THEN conjunct2, THEN conjunct1] h [of new_years_eve] r2 by (simp add: d m2)
  have c3: "map post_date
         (blog_posts (snd (edit_post (blog_state (Some 1)) (1, Some second_post_form))))
       = [''March 09, 2024'']"
    using t1 [THEN conjunct2, THEN conjunct2, THEN conjunct1] by (simp add: d)
  show ?thesis
    using h r1 r2 e c1 c2 c3 by simp
qed

lemma delete_post_func_found:
  "blogpost_query_get s pid = Some p \<Longrightarrow>
     delete_post_func s pid
       = (Inr (Redirect Get_all_posts),
          s\<lparr>blog_posts := filter (\<lambda>q. post_id q \<noteq> pid) (blog_posts s),
            comments := map (detach_comment pid) (comments s)\<rparr>)"
  using blogpost_query_get_id [of s pid p] by (simp add: delete_post_func_def)

lemma find_filter_neq: "find (\<lambda>p. k p = i) (filter (\<lambda>q. k q \<noteq> i) xs) = None"
  by (induction xs) auto

subsection \<open>Deleting a post\<close>

text \<open>
  C6, as the code has it. For the administrator, deleting an id that is not in the store
  raises \<open>UnmappedInstanceError\<close> and changes nothing; deleting an id that is in the store
  redirects to the listing, removes the post from what \<open>get_all_posts\<close> lists, and a
  later lookup of the id finds no post, so that \<open>show_post\<close> renders the page without a
  post.
\<close>

theorem delete_post_outcomes:
  "current_user s = Authenticated u \<Longrightarrow> user_id u = 1 \<Longrightarrow>
     (blogpost_query_get s pid = None
        \<longrightarrow> delete_post s pid = (Inl UnmappedInstanceError, s))
     \<and> (blogpost_query_get s pid \<noteq> None
        \<longrightarrow> fst (delete_post s pid) = Inr (Redirect Get_all_posts)
            \<and> blog_posts (snd (delete_post s pid))
                = filter (\<lambda>q. post_id q \<noteq> pid) (blog_posts s)
            \<and> fst (get_all_posts (snd (delete_post s pid)))
                = Inr (Render_index (filter (\<lambda>q. post_id q \<noteq> pid) (blog_posts s)) True)
            \<and> pid \<notin> set (map post_id (blogpost_query_all (snd (delete_post s pid))))
            \<and> blogpost_query_get (snd (delete_post s pid)) pid = None
            \<and> fst (show_post (snd (delete_post s pid)) pid None)
                = Inr (Render_post None True (Authenticated u) pid))"
proof (intro conjI impI)
  assume a: "current_user s = Authenticated u" "user_id u = 1"
  have gate: "delete_post s pid = delete_post_func s pid"
    unfolding delete_post_def using a by (rule admin_only_admin)
  {
    assume "blogpost_query_get s pid = None"
    then show "delete_post s pid = (Inl UnmappedInstanceError, s)"
      by (simp add: gate delete_post_func_def)
  }
  assume "blogpost_query_get s pid \<noteq> None"
  then obtain p where p: "blogpost_query_get s pid = Some p"
    by auto
  let ?s' = "s\<lparr>blog_posts := filter (\<lambda>q. post_id q \<noteq> pid) (blog_posts s),
               comments := map (detach_comment pid) (comments s)\<rparr>"
  have eq: "delete_post s pid = (Inr (Redirect Get_all_posts), ?s')"
    using delete_post_func_found [OF p] by (simp add: gate)
  have cu: "current_user ?s' = Authenticated u"
    using a(1) current_user_cong [of ?s' s] by simp
  have gone: "blogpost_query_get ?s' pid = None"
    by (simp add: blogpost_query_get_def find_filter_neq)
  show "fst (delete_post s pid) = Inr (Redirect Get_all_posts)"
    by (simp add: eq)
  show "blog_posts (snd (delete_post s pid)) = filter (\<lambda>q. post_id q \<noteq> pid) (blog_posts s)"
    by (simp add: eq)
  show "fst (get_all_posts (snd (delete_post s pid)))
          = Inr (Render_index (filter (\<lambda>q. post_id q \<noteq> pid) (blog_posts s)) True)"
    unfolding eq snd_conv get_all_posts_def Let_def cu by (simp add: blogpost_query_all_def)
  show "pid \<notin> set (map post_id (blogpost_query_all (snd (delete_post s pid))))"
    by (auto simp: eq blogpost_query_all_def)
  show "blogpost_query_get (snd (delete_post s pid)) pid = None"
    unfolding eq snd_conv by (rule gone)
  show "fst (show_post (snd (delete_post s pid)) pid None)
          = Inr (Render_post None True (Authenticated u) pid)"
    unfolding eq snd_conv show_post_def Let_def gone cu by simp
qed

theorem delete_post_outcomes_witness:
  "current_user (blog_state (Some 1)) = Authenticated admin_row \<and> user_id admin_row = 1
   \<and> blogpost_query_get (blog_state (Some 1)) 7 = None
   \<and> delete_post (blog_state (Some 1)) 7 = (Inl UnmappedInstanceError, blog_state (Some 1))
   \<and> blogpost_query_get (blog_state (Some 1)) 1 \<noteq> None
   \<and> fst (delete_post (blog_state (Some 1)) 1) = Inr (Redirect Get_all_posts)
   \<and> fst (get_all_posts (snd (delete_post (blog_state (Some 1)) 1))) = Inr (Render_index [] True)
   \<and> blogpost_query_get (snd (delete_post (blog_state (Some 1)) 1)) 1 = None"
proof -
  have h1: "current_user (blog_state (Some 1)) = Authenticated admin_row"
    by (rule current_user_blog_state_admin)
  have h2: "user_id admin_row = 1"
    by (simp add: admin_row_def)
  have h3: "blogpost_query_get (blog_state (Some 1)) 7 = None"
    by (simp add: blogpost_query_get_def example_defs)
  have h4: "blogpost_query_get (blog_state (Some 1)) 1 \<noteq> None"
    by (simp add: blogpost_query_get_def example_defs)
  have f: "filter (\<lambda>q. post_id q \<noteq> 1) (blog_posts (blog_state (Some 1))) = []"
    by (simp add: example_defs)
  show ?thesis
    using h1 h2 h3 h4 delete_post_outcomes [OF h1 h2, of 7] delete_post_outcomes [OF h1 h2, of 1]
    by (simp add: f)
qed

text \<open>
  C6 as stated fails: for the absent id 7 the exception is \<open>UnmappedInstanceError\<close>, not
  a not-found answer, and fetching the deleted id 1 afterwards renders a page instead of
  reporting that the post is not found.
\<close>

theorem delete_post_not_found_counterexample:
  "blogpost_query_get (blog_state (Some 1)) 7 = None
   \<and> fst (delete_post (blog_state (Some 1)) 7) = Inl UnmappedInstanceError
   \<and> fst (delete_post (blog_state (Some 1)) 7) \<noteq> Inl (HTTPException 404)
   \<and> fst (show_post (snd (delete_post (blog_state (Some 1)) 1)) 1 None)
       = Inr (Render_post None True (Authenticated admin_row) 1)
   \<and> fst (show_post (snd (delete_post (blog_state (Some 1)) 1)) 1 None)
       \<noteq> Inl (HTTPException 404)"
proof -
  have g: "blogpost_query_get (blog_state (Some 1)) 7 = None"
    by (simp add: blogpost_query_get_def example_defs)
  have d7: "delete_post (blog_state (Some 1)) 7 = (Inl UnmappedInstanceError, blog_state (Some 1))"
    unfolding delete_post_def admin_only_def current_user_blog_state_admin delete_post_func_def g
    by (simp add: admin_row_def)
  have g1: "blogpost_query_get (blog_state (Some 1)) 1 = Some hello_post"
    by (simp add: blogpost_query_get_def example_defs)
  have d1: "snd (delete_post (blog_state (Some 1)) 1)
      = \<lparr>users = [admin_row, reader_row], blog_posts = [],
         comments = [first_comment\<lparr>comment_post_id := None\<rparr>],
         session_user_id = Some 1, flashed = []\<rparr>"
    unfolding delete_post_def admin_only_def current_user_blog_state_admin delete_post_func_def g1
    by (simp add: admin_row_def hello_post_def blog_state_def detach_comment_def first_comment_def)
  have s: "show_post (snd (delete_post (blog_state (Some 1)) 1)) 1 None
      = (Inr (Render_post None True (Authenticated admin_row) 1),
         snd (delete_post (blog_state (Some 1)) 1))"
    unfolding d1 by (simp add: show_post_def query_defs admin_row_def)
  show ?thesis
    by (simp add: g d7 s)
qed

text \<open>
  C8, as the code has it. A successful delete removes the rows of the post and keeps
  every comment row, in order, with its id, author and text; the post reference of a
  comment on the deleted post becomes null, and the post reference of any other comment
  is unchanged. The users are unchanged.
\<close>

theorem delete_post_detaches_comments:
  "fst (delete_post s pid) = Inr r \<Longrightarrow>
     map comment_id (comments (snd (delete_post s pid))) = map comment_id (comments s)
     \<and> map comment_author_id (comments (snd (delete_post s pid)))
         = map comment_author_id (comments s)
     \<and> map comment_text (comments (snd (delete_post s pid))) = map comment_text (comments s)
     \<and> map comment_post_id (comments (snd (delete_post s pid)))
         = map (\<lambda>c. if comment_post_id c = Some pid then None else comment_post_id c)
             (comments s)
     \<and> users (snd (delete_post s pid)) = users s
     \<and> blog_posts (snd (delete_post s pid)) = filter (\<lambda>q. post_id q \<noteq> pid) (blog_posts s)"
proof -
  assume ok: "fst (delete_post s pid) = Inr r"
  have run: "delete_post s pid = delete_post_func s pid"
    using ok by (auto simp: delete_post_def admin_only_def split: principal.splits if_splits)
  then obtain p where p: "blogpost_query_get s pid = Some p"
    using ok by (auto simp: delete_post_func_def split: option.splits)
  have eq: "snd (delete_post s pid)
      = s\<lparr>blog_posts := filter (\<lambda>q. post_id q \<noteq> pid) (blog_posts s),
          comments := map (detach_comment pid) (comments s)\<rparr>"
    using delete_post_func_found [OF p] by (simp add: run)
  show ?thesis
    unfolding eq by (simp add: detach_comment_def comp_def if_distrib cong: if_cong)
qed

theorem delete_post_detaches_comments_witness:
  "fst (delete_post (blog_state (Some 1)) 1) = Inr (Redirect Get_all_posts)
   \<and> map comment_id (comments (snd (delete_post (blog_state (Some 1)) 1))) = [1]
   \<and> map comment_post_id (comments (snd (delete_post (blog_state (Some 1)) 1))) = [None]
   \<and> blog_posts (snd (delete_post (blog_state (Some 1)) 1)) = []"
proof -
  have h: "fst (delete_post (blog_state (Some 1)) 1) = Inr (Redirect Get_all_posts)"
    unfolding delete_post_def admin_only_def current_user_blog_state_admin delete_post_func_def
    by (simp add: blogpost_query_get_def example_defs)
  have c: "comments (blog_state (Some 1)) = [first_comment]"
    and b: "blog_posts (blog_state (Some 1)) = [hello_post]"
    by (simp_all add: blog_state_def)
  show ?thesis
    using h delete_post_detaches_comments [OF h]
    by (simp add: c b first_comment_def hello_post_def)
qed

text \<open>
  C8 as stated fails: the comment on post 1 is kept, but not unchanged; its post reference
  is null after the delete.
\<close>

theorem delete_post_comments_counterexample:
  "fst (delete_post (blog_state (Some 1)) 1) = Inr (Redirect Get_all_posts)
   \<and> comments (blog_state (Some 1))
       = [\<lparr>comment_id = 1, comment_author_id = Some 2, comment_post_id = Some 1,
           comment_text = ''Nice''\<rparr>]
   \<and> comments (snd (delete_post (blog_state (Some 1)) 1))
       = [\<lparr>comment_id = 1, comment_author_id = Some 2, comment_post_id = None,
           comment_text = ''Nice''\<rparr>]
   \<and> comments (snd (delete_post (blog_state (Some 1)) 1)) \<noteq> comments (blog_state (Some 1))"
proof -
  have g1: "blogpost_query_get (blog_state (Some 1)) 1 = Some hello_post"
    by (simp add: blogpost_query_get_def example_defs)
  have d: "delete_post (blog_state (Some 1)) 1
      = (Inr (Redirect Get_all_posts),
         \<lparr>users = [admin_row, reader_row], blog_posts = [],
          comments = [\<lparr>comment_id = 1, comment_author_id = Some 2, comment_post_id = None,
                       comment_text = ''Nice''\<rparr>],
          session_user_id = Some 1, flashed = []\<rparr>)"
    unfolding delete_post_def admin_only_def current_user_blog_state_admin delete_post_func_def g1
    by (simp add: admin_row_def hello_post_def blog_state_def detach_comment_def first_comment_def)
  show ?thesis
    unfolding d by (simp add: blog_state_def first_comment_def)
qed

end
